theory Spec2Isabelle
  imports Main "HOL-Library.Word" "HOL-Library.Signed_Division"
begin

unbundle bit_operations_syntax

section \<open>Go values\<close>

text \<open>
  A Go \<open>byte\<close>/\<open>uint8\<close> is an \<open>8 word\<close>.  A Go \<open>int\<close> is a 64-bit two's complement
  integer (the tests of package bitextract use \<open>1<<63 - 1\<close> as an \<open>int\<close>); it is modelled
  as a HOL \<open>int\<close> in the range \<open>[-2^63, 2^63)\<close>, and \<open>int64\<close> is the wrap-around that Go
  applies to the result of an addition.  Go's \<open>/\<close> and \<open>%\<close> truncate towards zero:
  they are \<open>sdiv\<close> and \<open>smod\<close>.
\<close>

type_synonym byte = "8 word"

definition int64 :: "int \<Rightarrow> int" where
  "int64 x = (x + 2 ^ 63) mod 2 ^ 64 - 2 ^ 63"

text \<open>
  Every panic and every returned error of the source is a value.  The constructors
  named \<open>Panic...\<close> are Go panics (fatal), the others are values of Go's \<open>error\<close>.
\<close>

datatype error =
    PanicIllegalBounds
  | PanicOverflow
  | PanicSrcTooShort
  | PanicDestTooSmall
  | PanicIndex
  | PanicOffset
  | ErrNoData
  | ErrLength96
  | ErrLength198
  | ErrHeader
  | ErrPartition
  | ErrIndicator
  | ErrFilter
  | ErrItemRef
  | ErrCompanyPrefix
  | ErrSerialEmpty
  | ErrSerialTooLong
  | ErrSerialChars
  | ErrHex
  | ErrShortBuffer
  | EOF
  | ErrWidthsEmpty
  | ErrWidth
  | ErrNotEnoughBytes

fun is_panic :: "error \<Rightarrow> bool" where
  "is_panic PanicIllegalBounds = True"
| "is_panic PanicOverflow = True"
| "is_panic PanicSrcTooShort = True"
| "is_panic PanicDestTooSmall = True"
| "is_panic PanicIndex = True"
| "is_panic PanicOffset = True"
| "is_panic _ = False"

text \<open>
  Go's indexing \<open>xs[i]\<close>, assignment \<open>xs[i] = v\<close>, slicing \<open>xs[lo:hi]\<close> and
  \<open>xs[lo:]\<close> panic out of range, and the built-in \<open>copy\<close> copies as many elements
  as fit.  A slice's capacity is taken to be its length.
\<close>

definition goIndex :: "'a list \<Rightarrow> int \<Rightarrow> error + 'a" where
  "goIndex xs i =
     (if 0 \<le> i \<and> i < int (length xs) then Inr (xs ! nat i) else Inl PanicIndex)"

definition goStore :: "'a list \<Rightarrow> int \<Rightarrow> 'a \<Rightarrow> error + 'a list" where
  "goStore xs i v =
     (if 0 \<le> i \<and> i < int (length xs) then Inr (xs[nat i := v]) else Inl PanicIndex)"

definition goSlice :: "'a list \<Rightarrow> int \<Rightarrow> int \<Rightarrow> error + 'a list" where
  "goSlice xs lo hi =
     (if 0 \<le> lo \<and> lo \<le> hi \<and> hi \<le> int (length xs)
      then Inr (take (nat (hi - lo)) (drop (nat lo) xs)) else Inl PanicIndex)"

definition goSliceFrom :: "'a list \<Rightarrow> int \<Rightarrow> error + 'a list" where
  "goSliceFrom xs lo =
     (if 0 \<le> lo \<and> lo \<le> int (length xs) then Inr (drop (nat lo) xs) else Inl PanicIndex)"

definition goCopy :: "'a list \<Rightarrow> 'a list \<Rightarrow> 'a list" where
  "goCopy dst src = take (min (length dst) (length src)) src @ drop (length src) dst"

section \<open>bitextract.BitExtractor\<close>

datatype alignmentBias = srcAligned | srcBiasPrev | srcBiasNext

record BitExtractor =
  bitStart :: int
  byteStart :: int
  srcLen :: int
  dstLen :: int
  bias :: alignmentBias
  rshift :: byte
  lshift :: byte
  mask :: byte

text \<open>The zero value \<open>BitExtractor{}\<close>; \<open>srcAligned\<close> is \<open>alignmentBias(0)\<close>.\<close>

definition zeroBitExtractor :: BitExtractor where
  "zeroBitExtractor = \<lparr>bitStart = 0, byteStart = 0, srcLen = 0, dstLen = 0,
     bias = srcAligned, rshift = 0, lshift = 0, mask = 0\<rparr>"

definition ByteLength :: "BitExtractor \<Rightarrow> int" where
  "ByteLength be = dstLen be"

definition ifAligned :: "int \<Rightarrow> int \<Rightarrow> int \<Rightarrow> int" where
  "ifAligned sz ifYes ifNo = (if sz smod 8 = 0 then ifYes else ifNo)"

text \<open>
  \<open>SetBounds\<close> assigns every field of the receiver.  \<open>e\<close> is the machine value of
  \<open>start+len\<close>, which the source recomputes at each use.
\<close>

definition SetBounds :: "BitExtractor \<Rightarrow> int \<Rightarrow> int \<Rightarrow> error + BitExtractor" where
  "SetBounds be start len =
     (if start < 0 \<or> len < 1 then Inl PanicIllegalBounds
      else let e = int64 (start + len) in
      if e < 0 then Inl PanicOverflow
      else
        let bs = start sdiv 8;
            dl = len sdiv 8 + ifAligned len 0 1;
            srcEndByte = (e sdiv 8) - ifAligned e 1 0;
            sl = srcEndByte - bs + 1;
            srcEndOffset = int64 (e - 1) smod 8;
            rs = (word_of_int (8 - srcEndOffset - 1) :: byte);
            ls = (word_of_int (srcEndOffset + 1) :: byte);
            m = (word_of_int (ifAligned len 255 (push_bit (nat (len smod 8)) 1 - 1)) :: byte)
        in Inr (be\<lparr>bitStart := start, byteStart := bs, dstLen := dl, srcLen := sl,
                   rshift := rs, lshift := ls, mask := m,
                   bias := (if rs = 0 then srcAligned
                            else if sl = dl then srcBiasPrev
                            else srcBiasNext)\<rparr>))"

definition New :: "int \<Rightarrow> int \<Rightarrow> error + BitExtractor" where
  "New start len = SetBounds zeroBitExtractor start len"

text \<open>
  \<open>ExtractTo(dest, src)\<close> on two buffers that do not share memory: the updated \<open>dest\<close>
  is returned.  The two loops of the source are \<open>biasPrevLoop\<close> (started at \<open>i = 1\<close>)
  and \<open>biasNextLoop\<close> (started at \<open>i = 0\<close>).  A shift count is the \<open>uint8\<close> value
  \<open>ByteSize - rshift\<close>.
\<close>

function biasPrevLoop :: "BitExtractor \<Rightarrow> byte list \<Rightarrow> int \<Rightarrow> byte list \<Rightarrow> error + byte list" where
  "biasPrevLoop be src i dest =
     (if i < dstLen be then
        (case goIndex src (i + byteStart be - 1) of Inl e \<Rightarrow> Inl e | Inr a \<Rightarrow>
        (case goIndex src (i + byteStart be) of Inl e \<Rightarrow> Inl e | Inr b \<Rightarrow>
        (case goStore dest i (push_bit (unat (8 - rshift be)) a OR drop_bit (unat (rshift be)) b)
           of Inl e \<Rightarrow> Inl e | Inr dest' \<Rightarrow> biasPrevLoop be src (i + 1) dest')))
      else Inr dest)"
  by pat_completeness auto
termination
  by (relation "measure (\<lambda>(be, src, i, dest). nat (dstLen be - i))") auto

declare biasPrevLoop.simps [simp del]

function biasNextLoop :: "BitExtractor \<Rightarrow> byte list \<Rightarrow> int \<Rightarrow> byte list \<Rightarrow> error + byte list" where
  "biasNextLoop be src i dest =
     (if i < dstLen be then
        (case goIndex src (i + byteStart be) of Inl e \<Rightarrow> Inl e | Inr a \<Rightarrow>
        (case goIndex src (i + byteStart be + 1) of Inl e \<Rightarrow> Inl e | Inr b \<Rightarrow>
        (case goStore dest i (push_bit (unat (8 - rshift be)) a OR drop_bit (unat (rshift be)) b)
           of Inl e \<Rightarrow> Inl e | Inr dest' \<Rightarrow> biasNextLoop be src (i + 1) dest')))
      else Inr dest)"
  by pat_completeness auto
termination
  by (relation "measure (\<lambda>(be, src, i, dest). nat (dstLen be - i))") auto

declare biasNextLoop.simps [simp del]

definition maskFirst :: "BitExtractor \<Rightarrow> byte list \<Rightarrow> error + byte list" where
  "maskFirst be dest =
     (case goIndex dest 0 of Inl e \<Rightarrow> Inl e | Inr d0 \<Rightarrow> goStore dest 0 (d0 AND mask be))"

definition ExtractTo :: "BitExtractor \<Rightarrow> byte list \<Rightarrow> byte list \<Rightarrow> error + byte list" where
  "ExtractTo be dest src =
     (if int (length src) < srcLen be + byteStart be then Inl PanicSrcTooShort
      else if int (length dest) < dstLen be then Inl PanicDestTooSmall
      else
        (case
           (case bias be of
              srcAligned \<Rightarrow>
                (case goSlice src (byteStart be) (byteStart be + dstLen be) of
                   Inl e \<Rightarrow> Inl e | Inr part \<Rightarrow> Inr (goCopy dest part))
            | srcBiasPrev \<Rightarrow>
                (case goIndex src (byteStart be) of Inl e \<Rightarrow> Inl e | Inr a \<Rightarrow>
                (case goStore dest 0 (drop_bit (unat (rshift be)) a) of
                   Inl e \<Rightarrow> Inl e | Inr dest' \<Rightarrow> biasPrevLoop be src 1 dest'))
            | srcBiasNext \<Rightarrow> biasNextLoop be src 0 dest)
         of Inl e \<Rightarrow> Inl e | Inr dest' \<Rightarrow> maskFirst be dest'))"

text \<open>\<open>Buffer\<close>: \<open>make([]byte, n)\<close> panics for a negative \<open>n\<close>.\<close>

definition Buffer :: "BitExtractor \<Rightarrow> error + byte list" where
  "Buffer be = (if ByteLength be < 0 then Inl PanicIndex
                else Inr (replicate (nat (ByteLength be)) 0))"

definition Extract :: "BitExtractor \<Rightarrow> byte list \<Rightarrow> error + byte list" where
  "Extract be src =
     (case Buffer be of Inl e \<Rightarrow> Inl e | Inr dest \<Rightarrow> ExtractTo be dest src)"

text \<open>
  \<open>binary.BigEndian.Uint64\<close> of an 8-byte buffer.  \<open>ExtractUInt64\<close> zeroes the pooled
  buffer first, extracts into its tail \<open>buff[8-dstLen:]\<close>, which shares the buffer's
  memory, and reads the whole buffer.
\<close>

definition BigEndianUint64 :: "byte list \<Rightarrow> 64 word" where
  "BigEndianUint64 b = foldl (\<lambda>acc x. push_bit 8 acc OR ucast x) 0 (take 8 b)"

definition ExtractUInt64 :: "BitExtractor \<Rightarrow> byte list \<Rightarrow> error + 64 word" where
  "ExtractUInt64 be src =
     (let buff = replicate 8 (0::byte) in
      (case goSliceFrom buff (8 - dstLen be) of Inl e \<Rightarrow> Inl e | Inr part \<Rightarrow>
      (case ExtractTo be part src of Inl e \<Rightarrow> Inl e | Inr part' \<Rightarrow>
        Inr (BigEndianUint64 (take (nat (8 - dstLen be)) buff @ part')))))"

text \<open>Sequencing of calls that may panic or fail.\<close>

definition bindE :: "error + 'a \<Rightarrow> ('a \<Rightarrow> error + 'b) \<Rightarrow> error + 'b" where
  "bindE m f = (case m of Inl e \<Rightarrow> Inl e | Inr x \<Rightarrow> f x)"

section \<open>bitextract.BitExploder and bitextract.BitReader\<close>

record BitExploder =
  bitLength :: int
  expByteLen :: int
  extractors :: "BitExtractor list"

definition zeroBitExploder :: BitExploder where
  "zeroBitExploder = \<lparr>bitLength = 0, expByteLen = 0, extractors = []\<rparr>"

definition NumFields :: "BitExploder \<Rightarrow> int" where
  "NumFields ex = int (length (extractors ex))"

text \<open>
  \<open>SetWidths\<close>: the body of \<open>for i, w := range widths\<close> is \<open>setWidthsLoop\<close>.  A panic
  of \<open>New\<close> and a returned error are both \<open>Inl\<close>; the partially updated receiver that Go
  leaves behind a returned error is not part of the result.  \<open>expByteLen\<close> is not reset,
  as in the source.
\<close>

fun setWidthsLoop :: "BitExploder \<Rightarrow> int \<Rightarrow> int list \<Rightarrow> error + BitExploder" where
  "setWidthsLoop ex i [] = Inr ex"
| "setWidthsLoop ex i (w # ws) =
     (if w \<le> 0 then Inl ErrWidth
      else
        (case New (bitLength ex) w of Inl e \<Rightarrow> Inl e | Inr be \<Rightarrow>
        (case goStore (extractors ex) i be of Inl e \<Rightarrow> Inl e | Inr exs \<Rightarrow>
           setWidthsLoop
             (ex\<lparr>extractors := exs,
                 bitLength := int64 (bitLength ex + w),
                 expByteLen := int64 (expByteLen ex + ByteLength be)\<rparr>)
             (i + 1) ws)))"

definition SetWidths :: "BitExploder \<Rightarrow> int list \<Rightarrow> error + BitExploder" where
  "SetWidths ex widths =
     (if length widths = 0 then Inl ErrWidthsEmpty
      else setWidthsLoop
             (ex\<lparr>bitLength := 0, extractors := replicate (length widths) zeroBitExtractor\<rparr>)
             0 widths)"

definition NewBitExploder :: "int list \<Rightarrow> error + BitExploder" where
  "NewBitExploder widths = SetWidths zeroBitExploder widths"

record BitReader =
  exp :: BitExploder
  field :: int
  data :: "byte list"

definition Reset :: "BitReader \<Rightarrow> BitReader" where
  "Reset r = r\<lparr>field := 0\<rparr>"

definition SetData :: "BitReader \<Rightarrow> byte list \<Rightarrow> error + BitReader" where
  "SetData r d =
     (if int (length d) * 8 < bitLength (exp r) then Inl ErrNotEnoughBytes
      else Inr (r\<lparr>data := d, field := 0\<rparr>))"

definition NewBitReader :: "BitExploder \<Rightarrow> byte list \<Rightarrow> error + BitReader" where
  "NewBitReader ex d = SetData \<lparr>exp = ex, field = 0, data = []\<rparr> d"

text \<open>\<open>for i := 0; i < len(p)-ex.dstLen; i++ { p[i] = 0 }\<close>, with \<open>n = len(p)-ex.dstLen\<close>.\<close>

function clearLoop :: "byte list \<Rightarrow> int \<Rightarrow> int \<Rightarrow> error + byte list" where
  "clearLoop p n i =
     (if i < n then
        (case goStore p i 0 of Inl e \<Rightarrow> Inl e | Inr p' \<Rightarrow> clearLoop p' n (i + 1))
      else Inr p)"
  by pat_completeness auto
termination
  by (relation "measure (\<lambda>(p, n, i). nat (n - i))") auto

declare clearLoop.simps [simp del]

text \<open>
  \<open>Read(p)\<close> returns the reader and the buffer as they are after the call, the count
  and the returned error (\<open>None\<close> is \<open>nil\<close>).  \<open>Inl\<close> is a panic.  The buffer \<open>p\<close> and
  the reader's data are taken not to share memory.
\<close>

definition Read :: "BitReader \<Rightarrow> byte list
    \<Rightarrow> error + (BitReader \<times> byte list \<times> int \<times> error option)" where
  "Read r p =
     (if field r \<ge> NumFields (exp r) then Inr (r, p, 0, Some EOF)
      else
        (case goIndex (extractors (exp r)) (field r) of Inl e \<Rightarrow> Inl e | Inr ex \<Rightarrow>
           if dstLen ex > int (length p) then Inr (r, p, 0, Some ErrShortBuffer)
           else
             (case clearLoop p (int (length p) - dstLen ex) 0 of Inl e \<Rightarrow> Inl e | Inr p1 \<Rightarrow>
             (case goSliceFrom p1 (int (length p) - dstLen ex) of Inl e \<Rightarrow> Inl e | Inr part \<Rightarrow>
             (case ExtractTo ex part (data r) of Inl e \<Rightarrow> Inl e | Inr part' \<Rightarrow>
                Inr (r\<lparr>field := field r + 1\<rparr>,
                     take (nat (int (length p) - dstLen ex)) p1 @ part',
                     int (length p), None))))))"

section \<open>epc: 7-bit ASCII and GS1 escaping\<close>

text \<open>
  A Go \<open>string\<close> is a sequence of bytes: a \<open>string\<close> of HOL, whose \<open>char\<close> are bytes.
  \<open>string(outdata)\<close> is \<open>map byteChar\<close>.
\<close>

definition byteChar :: "byte \<Rightarrow> char" where
  "byteChar b = char_of (unat b)"

definition nullASCII :: char where
  "nullASCII = CHR 0x00"

text \<open>Package-level variables are initialised by \<open>New\<close>, which may panic.\<close>

definition asciiExtracts :: "(error + BitExtractor) list" where
  "asciiExtracts = [New 0 7, New 7 7, New 6 7, New 5 7, New 4 7, New 3 7, New 2 7, New 1 7]"

text \<open>
  The loop of \<open>DecodeASCIIAt\<close>.  \<open>outdata[i:]\<close> shares the memory of \<open>outdata\<close>, so the
  extraction into it updates \<open>outdata\<close> from index \<open>i\<close> on.
\<close>

function decodeLoop :: "byte list \<Rightarrow> int \<Rightarrow> int \<Rightarrow> int \<Rightarrow> byte list \<Rightarrow> int \<Rightarrow> bool
    \<Rightarrow> error + (byte list \<times> int \<times> bool)" where
  "decodeLoop dat offset i ext outdata nullTerm extra =
     (if i < int (length outdata) then
        (let inbyte = i - ((i + 7 - offset) sdiv 8) in
         (case goIndex asciiExtracts (ext smod 8) of Inl e \<Rightarrow> Inl e | Inr newed \<Rightarrow>
         (case newed of Inl e \<Rightarrow> Inl e | Inr be \<Rightarrow>
         (case goSliceFrom outdata i of Inl e \<Rightarrow> Inl e | Inr dpart \<Rightarrow>
         (case goSliceFrom dat inbyte of Inl e \<Rightarrow> Inl e | Inr spart \<Rightarrow>
         (case ExtractTo be dpart spart of Inl e \<Rightarrow> Inl e | Inr dpart' \<Rightarrow>
           (let outdata' = take (nat i) outdata @ dpart' in
            (case goIndex outdata' i of Inl e \<Rightarrow> Inl e | Inr c \<Rightarrow>
               if c = 0 then
                 (if nullTerm = - 1
                  then decodeLoop dat offset (i + 1) (ext + 1) outdata' i extra
                  else decodeLoop dat offset (i + 1) (ext + 1) outdata' nullTerm extra)
               else if nullTerm \<noteq> - 1
                 then decodeLoop dat offset (i + 1) (ext + 1) outdata' nullTerm True
                 else decodeLoop dat offset (i + 1) (ext + 1) outdata' nullTerm extra))))))))
      else Inr (outdata, nullTerm, extra))"
  by pat_completeness auto

text \<open>The loop ends because an extraction keeps the length of its destination.\<close>

lemma goStore_length: "goStore xs i v = Inr ys \<Longrightarrow> length ys = length xs"
  by (auto simp: goStore_def split: if_splits)

lemma goCopy_length: "length (goCopy dst src) = length dst"
  by (simp add: goCopy_def)

lemma biasPrevLoop_length:
  "biasPrevLoop be src i dest = Inr d \<Longrightarrow> length d = length dest"
proof (induction be src i dest rule: biasPrevLoop.induct)
  case (1 be src i dest)
  show ?case
  proof (cases "i < dstLen be")
    case True
    with "1.prems" obtain a b d1 where
      s: "goIndex src (i + byteStart be - 1) = Inr a" "goIndex src (i + byteStart be) = Inr b"
         "goStore dest i (push_bit (unat (8 - rshift be)) a OR drop_bit (unat (rshift be)) b) = Inr d1"
         "biasPrevLoop be src (i + 1) d1 = Inr d"
      by (subst (asm) biasPrevLoop.simps) (auto split: sum.splits)
    from "1.IH" [OF True s(1) s(2) s(3) s(4)] goStore_length [OF s(3)] show ?thesis by simp
  next
    case False
    with "1.prems" show ?thesis by (subst (asm) biasPrevLoop.simps) simp
  qed
qed

lemma biasNextLoop_length:
  "biasNextLoop be src i dest = Inr d \<Longrightarrow> length d = length dest"
proof (induction be src i dest rule: biasNextLoop.induct)
  case (1 be src i dest)
  show ?case
  proof (cases "i < dstLen be")
    case True
    with "1.prems" obtain a b d1 where
      s: "goIndex src (i + byteStart be) = Inr a" "goIndex src (i + byteStart be + 1) = Inr b"
         "goStore dest i (push_bit (unat (8 - rshift be)) a OR drop_bit (unat (rshift be)) b) = Inr d1"
         "biasNextLoop be src (i + 1) d1 = Inr d"
      by (subst (asm) biasNextLoop.simps) (auto split: sum.splits)
    from "1.IH" [OF True s(1) s(2) s(3) s(4)] goStore_length [OF s(3)] show ?thesis by simp
  next
    case False
    with "1.prems" show ?thesis by (subst (asm) biasNextLoop.simps) simp
  qed
qed

lemma maskFirst_length: "maskFirst be dest = Inr d \<Longrightarrow> length d = length dest"
  by (auto simp: maskFirst_def dest: goStore_length split: sum.splits)

lemma ExtractTo_length:
  assumes "ExtractTo be dest src = Inr d"
  shows "length d = length dest"
proof -
  from assms obtain d1 where m: "maskFirst be d1 = Inr d" and
    c: "(bias be = srcAligned \<and> (\<exists>part. d1 = goCopy dest part))
        \<or> (bias be = srcBiasPrev \<and> (\<exists>a d0. goStore dest 0 a = Inr d0 \<and> biasPrevLoop be src 1 d0 = Inr d1))
        \<or> (bias be = srcBiasNext \<and> biasNextLoop be src 0 dest = Inr d1)"
    by (auto simp: ExtractTo_def split: if_splits sum.splits alignmentBias.splits)
  from c have "length d1 = length dest"
    using goStore_length biasPrevLoop_length biasNextLoop_length
    by (fastforce simp: goCopy_length)
  with maskFirst_length [OF m] show ?thesis by simp
qed

termination decodeLoop
proof (relation "measure (\<lambda>(dat, offset, i, ext, outdata, nullTerm, extra). nat (int (length outdata) - i))",
    goal_cases)
  case 1
  show ?case by simp
next
  case (2 dat offset i ext outdata nullTerm extra inbyte newed be dpart spart dpart' outdata' c)
  then show ?case
    by (auto simp: goSliceFrom_def goIndex_def dest!: ExtractTo_length split: if_splits)
next
  case (3 dat offset i ext outdata nullTerm extra inbyte newed be dpart spart dpart' outdata' c)
  then show ?case
    by (auto simp: goSliceFrom_def goIndex_def dest!: ExtractTo_length split: if_splits)
next
  case (4 dat offset i ext outdata nullTerm extra inbyte newed be dpart spart dpart' outdata' c)
  then show ?case
    by (auto simp: goSliceFrom_def goIndex_def dest!: ExtractTo_length split: if_splits)
next
  case (5 dat offset i ext outdata nullTerm extra inbyte newed be dpart spart dpart' outdata' c)
  then show ?case
    by (auto simp: goSliceFrom_def goIndex_def dest!: ExtractTo_length split: if_splits)
qed

declare decodeLoop.simps [simp del]

text \<open>
  \<open>DecodeASCIIAt\<close> (the variant returning the text, the index of the first null and the
  flag for a non-null character after a null).
\<close>

definition DecodeASCIIAt :: "byte list \<Rightarrow> int \<Rightarrow> error + (string \<times> int \<times> bool)" where
  "DecodeASCIIAt dat offset =
     (if offset < 0 \<or> offset > 7 then Inl PanicOffset
      else
        (let outbyteLen = (int (length dat) * 8 - offset) sdiv 7 in
         if outbyteLen \<le> 0 then
           Inr ([], 0, length dat = 1 \<and> dat ! 0 \<noteq> 0)
         else
           (case decodeLoop dat offset 0 ((8 - offset) smod 8)
                   (replicate (nat outbyteLen) 0) (- 1) False of
              Inl e \<Rightarrow> Inl e
            | Inr (outdata, nullTerm, extra) \<Rightarrow>
                (let out = map byteChar outdata in
                 Inr (out, (if nullTerm = - 1 then int (length out) else nullTerm), extra)))))"

text \<open>
  \<open>gs1Escaper\<close> has one-byte keys only: \<open>Replace\<close> substitutes byte by byte, and the
  null byte is replaced by the empty string.
\<close>

definition gs1Escaper :: "(char \<times> string) list" where
  "gs1Escaper =
     [(CHR 0x22, ''%22''), (CHR ''#'', ''%23''), (CHR ''%'', ''%25''), (CHR ''&'', ''%26''),
      (CHR ''/'', ''%2F''), (CHR ''<'', ''%3C''), (CHR ''>'', ''%3E''), (CHR ''?'', ''%3F''),
      (CHR 0x00, [])]"

definition escapeByte :: "char \<Rightarrow> string" where
  "escapeByte c = (case map_of gs1Escaper c of Some r \<Rightarrow> r | None \<Rightarrow> [c])"

definition EscapeGS1 :: "string \<Rightarrow> string" where
  "EscapeGS1 s = concat (map escapeByte s)"

text \<open>
  \<open>gs1Unescaper\<close> has eight keys of three bytes.  \<open>Replace\<close> scans from the left: where
  a key starts, it writes the key's value and skips the key, otherwise it copies one
  byte.
\<close>

definition gs1Unescaper :: "(string \<times> char) list" where
  "gs1Unescaper =
     [(''%22'', CHR 0x22), (''%23'', CHR ''#''), (''%25'', CHR ''%''), (''%26'', CHR ''&''),
      (''%2F'', CHR ''/''), (''%3C'', CHR ''<''), (''%3E'', CHR ''>''), (''%3F'', CHR ''?'')]"

function UnescapeGS1 :: "string \<Rightarrow> string" where
  "UnescapeGS1 [] = []"
| "UnescapeGS1 (c # cs) =
     (if length cs < 2 then c # UnescapeGS1 cs
      else (case map_of gs1Unescaper (c # take 2 cs) of
              Some r \<Rightarrow> r # UnescapeGS1 (drop 2 cs)
            | None \<Rightarrow> c # UnescapeGS1 cs))"
  by pat_completeness auto
termination
  by (relation "measure length") auto

declare UnescapeGS1.simps [simp del]

text \<open>
  The GS1 AI character set 82, as the table \<open>[127]uint8\<close> of the source: index 127 is
  outside the table.
\<close>

definition gs1AIChars :: string where
  "gs1AIChars = [CHR ''!'', CHR 0x22, CHR ''%'', CHR ''&'', CHR 0x27, CHR ''('', CHR '')'',
     CHR ''*'', CHR ''+'', CHR '','', CHR ''-'', CHR ''.'', CHR ''/'',
     CHR '':'', CHR '';'', CHR ''<'', CHR ''='', CHR ''>'', CHR ''?'', CHR ''_'']
     @ ''0123456789'' @ ''ABCDEFGHIJKLMNOPQRSTUVWXYZ'' @ ''abcdefghijklmnopqrstuvwxyz''"

definition gs1AICharSet :: "byte list" where
  "gs1AICharSet = map (\<lambda>i. if char_of i \<in> set gs1AIChars then 1 else 0) [0..<127]"

text \<open>
  \<open>IsGS1AIEncodable\<close>.  \<open>for i := range s\<close> visits the start of each UTF-8 sequence;
  up to and including the first byte above 127, where the function returns, these are
  all the bytes, so the loop is a recursion over the bytes.  After a null the inner loop
  looks at all the bytes that follow.  The table lookup panics at index 127.
\<close>

fun IsGS1AIEncodable :: "string \<Rightarrow> error + bool" where
  "IsGS1AIEncodable [] = Inr True"
| "IsGS1AIEncodable (c # cs) =
     (if c = nullASCII then
        (if list_all (\<lambda>x. x = nullASCII) cs then IsGS1AIEncodable cs else Inr False)
      else if (of_char c :: nat) \<le> 127 then
        (case goIndex gs1AICharSet (int (of_char c AND (0x7F::nat))) of
           Inl e \<Rightarrow> Inl e
         | Inr v \<Rightarrow> if v = 1 then IsGS1AIEncodable cs else Inr False)
      else Inr False)"

section \<open>fmt.Sprintf for integers\<close>

text \<open>
  \<open>%d\<close> and \<open>%0*d\<close> of package fmt (the Go library, not part of this repository).
  With the flag \<open>0\<close> and a width \<open>w \<ge> 0\<close> the digits are padded with zeros to the width,
  one less after a sign; a negative width from \<open>*\<close> pads the number with spaces on the
  right; a width beyond \<open>10^6\<close> is reported in the output and ignored.
\<close>

function digits10 :: "nat \<Rightarrow> string" where
  "digits10 n = (if n < 10 then [char_of (48 + n)]
                 else digits10 (n div 10) @ [char_of (48 + n mod 10)])"
  by pat_completeness auto
termination
  by (relation "measure id") auto

declare digits10.simps [simp del]

definition fmtD :: "int \<Rightarrow> string" where
  "fmtD v = (if v < 0 then ''-'' @ digits10 (nat (- v)) else digits10 (nat v))"

definition fmtD0 :: "int \<Rightarrow> int \<Rightarrow> string" where
  "fmtD0 w v =
     (if w > 1000000 \<or> w < - 1000000 then ''%!(BADWIDTH)'' @ fmtD v
      else if w < 0 then fmtD v @ replicate (nat (- w) - length (fmtD v)) CHR '' ''
      else
        (let ds = digits10 (nat \<bar>v\<bar>);
             prec = (if v < 0 then w - 1 else w)
         in (if v < 0 then ''-'' else []) @ replicate (nat prec - length ds) CHR ''0'' @ ds))"

section \<open>epc.SGTIN\<close>

type_synonym FilterValue = int

definition Other :: FilterValue where "Other = 0"
definition POS :: FilterValue where "POS = 1"
definition FullCase :: FilterValue where "FullCase = 2"
definition reserved1 :: FilterValue where "reserved1 = 3"
definition InnerPack :: FilterValue where "InnerPack = 4"
definition reserved2 :: FilterValue where "reserved2 = 5"
definition UnitLoad :: FilterValue where "UnitLoad = 6"
definition UnitPack :: FilterValue where "UnitPack = 7"

definition IsValid :: "FilterValue \<Rightarrow> bool" where
  "IsValid fv \<longleftrightarrow> fv \<ge> Other \<and> fv \<le> UnitPack \<and> \<not> (fv = reserved1 \<or> fv = reserved2)"

text \<open>The field \<open>filter\<close> of the source is \<open>filter'\<close>.\<close>

record SGTIN =
  filter' :: FilterValue
  partition :: int
  companyPrefix :: int
  indicator :: int
  itemRef :: int
  serial :: string

definition SGTINPureURIPrefix :: string where
  "SGTINPureURIPrefix = ''urn:epc:id:sgtin''"

definition SGTIN96NumBytes :: int where "SGTIN96NumBytes = 12"
definition SGTIN198NumBytes :: int where "SGTIN198NumBytes = 25"
definition SGTIN96Header :: byte where "SGTIN96Header = 0x30"
definition SGTIN198Header :: byte where "SGTIN198Header = 0x36"

definition headerLen :: int where "headerLen = 8"
definition filterLen :: int where "filterLen = 3"
definition partitionLen :: int where "partitionLen = 3"
definition prefixIIRLen :: int where "prefixIIRLen = 44"
definition headerStartBit :: int where "headerStartBit = 0"
definition filterStartBit :: int where "filterStartBit = headerStartBit + headerLen"
definition partitionStartBit :: int where "partitionStartBit = filterStartBit + filterLen"
definition gcpStartBit :: int where "gcpStartBit = partitionStartBit + partitionLen"
definition serialStartBit :: int where "serialStartBit = gcpStartBit + prefixIIRLen"
definition serial96Len :: int where "serial96Len = 96 - serialStartBit"
definition serial198Len :: int where "serial198Len = 198 - serialStartBit"
definition serialStartByte :: int where "serialStartByte = serialStartBit sdiv 8"
definition serialOffsetBit :: int where "serialOffsetBit = serialStartBit smod 8"

definition filterExt :: "error + BitExtractor" where
  "filterExt = New filterStartBit filterLen"

definition partitionExt :: "error + BitExtractor" where
  "partitionExt = New partitionStartBit partitionLen"

definition serial96Ext :: "error + BitExtractor" where
  "serial96Ext = New serialStartBit serial96Len"

definition companyExt :: "(error + BitExtractor) list" where
  "companyExt = [New gcpStartBit 40, New gcpStartBit 37, New gcpStartBit 34,
     New gcpStartBit 30, New gcpStartBit 27, New gcpStartBit 24, New gcpStartBit 20]"

definition iirExt :: "(error + BitExtractor) list" where
  "iirExt = [New (serialStartBit - 4) 4, New (serialStartBit - 7) 7,
     New (serialStartBit - 10) 10, New (serialStartBit - 14) 14,
     New (serialStartBit - 17) 17, New (serialStartBit - 20) 20,
     New (serialStartBit - 24) 24]"

definition maxItems :: "int list" where
  "maxItems = [1, 10, 100, 1000, 10000, 100000, 1000000]"

definition maxPrefix :: "int list" where
  "maxPrefix = [999999999999, 99999999999, 9999999999, 999999999, 99999999, 9999999, 999999]"

text \<open>
  \<open>ValidateRanges\<close>: \<open>Inr ()\<close> is \<open>nil\<close>, \<open>Inl\<close> the returned error (or the panic of
  \<open>IsGS1AIEncodable\<close>).
\<close>

definition ValidateRanges :: "SGTIN \<Rightarrow> error + unit" where
  "ValidateRanges s =
     (if indicator s < 0 \<or> indicator s > 9 then Inl ErrIndicator
      else if \<not> IsValid (filter' s) then Inl ErrFilter
      else if partition s < 0 \<or> partition s > 6 then Inl ErrPartition
      else
        (case goIndex maxItems (partition s) of Inl e \<Rightarrow> Inl e | Inr mi \<Rightarrow>
           if itemRef s < 0 \<or> itemRef s > mi - 1 then Inl ErrItemRef
           else
             (case goIndex maxPrefix (partition s) of Inl e \<Rightarrow> Inl e | Inr mp \<Rightarrow>
                if companyPrefix s < 0 \<or> companyPrefix s > mp then Inl ErrCompanyPrefix
                else if serial s = [] then Inl ErrSerialEmpty
                else if length (serial s) > 20 then Inl ErrSerialTooLong
                else
                  (case IsGS1AIEncodable (serial s) of Inl e \<Rightarrow> Inl e | Inr ok \<Rightarrow>
                     if \<not> ok then Inl ErrSerialChars else Inr ()))))"

definition NewSGTIN :: "FilterValue \<Rightarrow> int \<Rightarrow> int \<Rightarrow> int \<Rightarrow> int \<Rightarrow> string
    \<Rightarrow> SGTIN \<times> (error + unit)" where
  "NewSGTIN f p ind cp ir ser =
     (let s = \<lparr>filter' = f, partition = p, companyPrefix = cp, indicator = ind,
                itemRef = ir, serial = ser\<rparr>
      in (s, ValidateRanges s))"

text \<open>
  \<open>checkSum\<close>: the loop \<open>for i := 0; n > 0; i++\<close>; \<open>sumv\<close> is the running \<open>sum\<close>.  The weight
  \<open>(((d1 - i) & 1) << 1) | 1\<close> is computed on two's complement integers.
\<close>

function checkSumLoop :: "int \<Rightarrow> int \<Rightarrow> int \<Rightarrow> int \<Rightarrow> int" where
  "checkSumLoop n d1 i sumv =
     (if n > 0
      then checkSumLoop (n sdiv 10) d1 (i + 1)
             (sumv + (n smod 10) * (push_bit 1 ((d1 - i) AND 1) OR 1))
      else sumv)"
  by pat_completeness auto
termination
  by (relation "measure (\<lambda>(n, d1, i, sumv). nat n)")
     (auto simp: signed_divide_int_def sgn_if)

declare checkSumLoop.simps [simp del]

definition checkSum :: "int \<Rightarrow> int \<Rightarrow> int" where
  "checkSum n d1 = checkSumLoop n d1 0 0"

definition checkDigit :: "SGTIN \<Rightarrow> int" where
  "checkDigit s =
     (let sumv = checkSum (itemRef s) 1
               + checkSum (companyPrefix s) (13 - partition s)
               + checkSum (indicator s) 13
      in (10 - (sumv smod 10)) smod 10)"

text \<open>
  The weighted digit sum as the specification words it, for comparison with
  \<open>checkSum\<close>: the digits of \<open>n\<close> from the least significant one, the digit at
  position \<open>p\<close> (counted from 1 at the ones place of the 13-digit GTIN) weighted 3 if
  \<open>p\<close> is odd and 1 if it is even; \<open>p\<close> starts at the component's anchor.
\<close>

function specWeightedSum :: "int \<Rightarrow> int \<Rightarrow> int" where
  "specWeightedSum n p =
     (if n \<le> 0 then 0
      else (n mod 10) * (if odd p then 3 else 1) + specWeightedSum (n div 10) (p + 1))"
  by pat_completeness auto
termination
  by (relation "measure (\<lambda>(n, p). nat n)") auto

declare specWeightedSum.simps [simp del]

definition GTIN :: "SGTIN \<Rightarrow> string" where
  "GTIN s =
     (if partition s = 0
      then fmtD (indicator s) @ fmtD0 12 (companyPrefix s) @ fmtD (checkDigit s)
      else fmtD (indicator s) @ fmtD0 (12 - partition s) (companyPrefix s)
           @ fmtD0 (partition s) (itemRef s) @ fmtD (checkDigit s))"

definition URI :: "SGTIN \<Rightarrow> string" where
  "URI s =
     (if partition s = 0
      then SGTINPureURIPrefix @ '':'' @ fmtD0 (12 - partition s) (companyPrefix s) @ ''.''
           @ fmtD (indicator s) @ ''.'' @ EscapeGS1 (serial s)
      else SGTINPureURIPrefix @ '':'' @ fmtD0 (12 - partition s) (companyPrefix s) @ ''.''
           @ fmtD (indicator s) @ fmtD0 (partition s) (itemRef s) @ ''.''
           @ EscapeGS1 (serial s))"

text \<open>
  \<open>DecodeSGTIN\<close>.  \<open>decodeSerial\<close> is the \<open>switch b[0]\<close>; \<open>int(...)\<close> of a \<open>uint64\<close> is
  \<open>sint\<close>.  \<open>Inl\<close> is the returned error (with the zero \<open>SGTIN{}\<close>) or a panic.
\<close>

definition decodeSerial :: "byte list \<Rightarrow> error + string" where
  "decodeSerial b =
     (if b ! 0 = SGTIN96Header then
        (if int (length b) \<noteq> SGTIN96NumBytes then Inl ErrLength96
         else
           (case bindE serial96Ext (\<lambda>x. ExtractUInt64 x b) of
              Inl e \<Rightarrow> Inl e | Inr v \<Rightarrow> Inr (fmtD (sint v))))
      else if b ! 0 = SGTIN198Header then
        (if int (length b) \<noteq> SGTIN198NumBytes then Inl ErrLength198
         else
           (case goSliceFrom b serialStartByte of Inl e \<Rightarrow> Inl e | Inr sb \<Rightarrow>
           (case DecodeASCIIAt sb serialOffsetBit of
              Inl e \<Rightarrow> Inl e
            | Inr (s, n, charAfterNull) \<Rightarrow>
                if charAfterNull then Inr s else goSlice s 0 n)))
      else Inl ErrHeader)"

definition DecodeSGTIN :: "byte list \<Rightarrow> error + SGTIN" where
  "DecodeSGTIN b =
     (if length b = 0 then Inl ErrNoData
      else
        (case decodeSerial b of Inl e \<Rightarrow> Inl e | Inr ser \<Rightarrow>
        (case bindE filterExt (\<lambda>x. ExtractUInt64 x b) of Inl e \<Rightarrow> Inl e | Inr fv \<Rightarrow>
        (case bindE partitionExt (\<lambda>x. ExtractUInt64 x b) of Inl e \<Rightarrow> Inl e | Inr pv \<Rightarrow>
           (let part = sint pv in
            if part < 0 \<or> part > 6 then Inl ErrPartition
            else
              (case bindE (bindE (goIndex companyExt part) id) (\<lambda>x. ExtractUInt64 x b) of
                 Inl e \<Rightarrow> Inl e | Inr cv \<Rightarrow>
              (case bindE (bindE (goIndex iirExt part) id) (\<lambda>x. ExtractUInt64 x b) of
                 Inl e \<Rightarrow> Inl e | Inr iv \<Rightarrow>
              (case goIndex maxItems part of Inl e \<Rightarrow> Inl e | Inr mi \<Rightarrow>
                 (let iir = sint iv;
                      ind = iir sdiv mi;
                      ir = (if part > 0 then iir - (ind * mi * 10) else 0)
                  in Inr \<lparr>filter' = sint fv, partition = part, companyPrefix = sint cv,
                           indicator = ind, itemRef = ir, serial = ser\<rparr>)))))))))"

text \<open>
  \<open>hex.DecodeString\<close> of encoding/hex (the Go library): two hexadecimal digits a byte,
  an error for any other character or an odd length.
\<close>

definition fromHexChar :: "char \<Rightarrow> byte option" where
  "fromHexChar c =
     (let n = (of_char c :: nat) in
      if 48 \<le> n \<and> n \<le> 57 then Some (of_nat (n - 48))
      else if 97 \<le> n \<and> n \<le> 102 then Some (of_nat (n - 97 + 10))
      else if 65 \<le> n \<and> n \<le> 70 then Some (of_nat (n - 65 + 10))
      else None)"

fun hexDecodeString :: "string \<Rightarrow> error + byte list" where
  "hexDecodeString [] = Inr []"
| "hexDecodeString [c] = Inl ErrHex"
| "hexDecodeString (a # b # cs) =
     (case fromHexChar a of None \<Rightarrow> Inl ErrHex | Some x \<Rightarrow>
     (case fromHexChar b of None \<Rightarrow> Inl ErrHex | Some y \<Rightarrow>
     (case hexDecodeString cs of Inl e \<Rightarrow> Inl e | Inr bs \<Rightarrow>
        Inr ((push_bit 4 x OR y) # bs))))"

definition DecodeSGTINString :: "string \<Rightarrow> error + SGTIN" where
  "DecodeSGTINString epc =
     (case hexDecodeString epc of Inl e \<Rightarrow> Inl e | Inr b \<Rightarrow> DecodeSGTIN b)"

section \<open>Arithmetic of the bounds\<close>

lemma sdiv_nonneg: "0 \<le> a \<Longrightarrow> 0 < b \<Longrightarrow> (a::int) sdiv b = a div b"
  by (simp add: signed_divide_int_def sgn_if)

lemma smod_nonneg: "0 \<le> a \<Longrightarrow> 0 < b \<Longrightarrow> (a::int) smod b = a mod b"
  by (simp add: signed_modulo_int_def sgn_if)

lemma int64_id: "- (2 ^ 63) \<le> x \<Longrightarrow> x < 2 ^ 63 \<Longrightarrow> int64 x = x"
  by (simp add: int64_def)

lemma byte_of_int_inj:
  "0 \<le> a \<Longrightarrow> a < 256 \<Longrightarrow> 0 \<le> b \<Longrightarrow> b < 256 \<Longrightarrow>
   ((word_of_int a :: byte) = word_of_int b) = (a = b)"
  by (simp add: word_of_int_eq_iff take_bit_int_eq_self)

lemma New_ok:
  assumes "0 \<le> start" "1 \<le> len" "start + len < 2 ^ 63"
  shows "New start len = Inr \<lparr>bitStart = start, byteStart = start div 8,
     srcLen = (start + len) div 8 - (if (start + len) mod 8 = 0 then 1 else 0) - start div 8 + 1,
     dstLen = len div 8 + (if len mod 8 = 0 then 0 else 1),
     bias = (if (start + len - 1) mod 8 = 7 then srcAligned
             else if (start + len) div 8 - (if (start + len) mod 8 = 0 then 1 else 0) - start div 8 + 1
                     = len div 8 + (if len mod 8 = 0 then 0 else 1) then srcBiasPrev
             else srcBiasNext),
     rshift = word_of_int (7 - (start + len - 1) mod 8),
     lshift = word_of_int ((start + len - 1) mod 8 + 1),
     mask = word_of_int (if len mod 8 = 0 then 255 else 2 ^ nat (len mod 8) - 1)\<rparr>"
proof -
  have e: "int64 (start + len) = start + len" "int64 (start + len - 1) = start + len - 1"
    using assms by (simp_all add: int64_id)
  have r0: "(word_of_int (7 - (start + len - 1) mod 8) = (0::byte))
            \<longleftrightarrow> (start + len - 1) mod 8 = 7"
    using byte_of_int_inj [of "7 - (start + len - 1) mod 8" 0]
    by (simp add: algebra_simps)
  have r7: "(word_of_int ((start + len - 1) mod 8) = (7::byte))
            \<longleftrightarrow> (start + len - 1) mod 8 = 7"
    using byte_of_int_inj [of "(start + len - 1) mod 8" 7] by simp
  show ?thesis
    using assms
    by (simp add: New_def SetBounds_def zeroBitExtractor_def Let_def e ifAligned_def
        sdiv_nonneg smod_nonneg r0 r7 push_bit_eq_mult)
qed

section \<open>Lengthening an extractor by one byte\<close>

text \<open>
  C6 (as amended).  For every \<open>start \<ge> 0\<close> and \<open>length \<ge> 1\<close> such that
  \<open>start + (length + 8)\<close> does not overflow a Go \<open>int\<close>, both extractors are built, and
  the one built from \<open>(start, length + 8)\<close> has a destination byte length exactly one
  greater than the one built from \<open>(start, length)\<close>, with the same \<open>byteStart\<close>,
  \<open>rshift\<close>, \<open>lshift\<close> and \<open>mask\<close>.
\<close>

lemma m8:
  "(start + (len + 8) - 1) mod 8 = (start + len - 1) mod (8::int)"
  "(len + 8) mod 8 = len mod (8::int)" "(len + 8) div 8 = len div (8::int) + 1"
proof -
  have "start + (len + 8) - 1 = (start + len - 1) + 8" by simp
  then show "(start + (len + 8) - 1) mod 8 = (start + len - 1) mod (8::int)"
    by (simp only: mod_add_self2)
qed simp_all

lemma New_fields:
  assumes "0 \<le> start" "1 \<le> len" "start + len < 2 ^ 63"
  shows "\<exists>be. New start len = Inr be
     \<and> bitStart be = start
     \<and> byteStart be = start div 8
     \<and> srcLen be = (start + len) div 8 - (if (start + len) mod 8 = 0 then 1 else 0) - start div 8 + 1
     \<and> dstLen be = len div 8 + (if len mod 8 = 0 then 0 else 1)
     \<and> bias be = (if (start + len - 1) mod 8 = 7 then srcAligned
             else if (start + len) div 8 - (if (start + len) mod 8 = 0 then 1 else 0) - start div 8 + 1
                     = len div 8 + (if len mod 8 = 0 then 0 else 1) then srcBiasPrev
             else srcBiasNext)
     \<and> rshift be = word_of_int (7 - (start + len - 1) mod 8)
     \<and> lshift be = word_of_int ((start + len - 1) mod 8 + 1)
     \<and> mask be = word_of_int (if len mod 8 = 0 then 255 else 2 ^ nat (len mod 8) - 1)"
  unfolding New_ok [OF assms] by simp

theorem New_length_plus_8:
  assumes "0 \<le> start" "1 \<le> len" "start + (len + 8) < 2 ^ 63"
  shows "\<exists>be be2. New start len = Inr be \<and> New start (len + 8) = Inr be2
           \<and> ByteLength be2 = ByteLength be + 1
           \<and> byteStart be2 = byteStart be
           \<and> rshift be2 = rshift be
           \<and> lshift be2 = lshift be
           \<and> mask be2 = mask be"
proof -
  have a: "start + len < 2 ^ 63" "1 \<le> len + 8" using assms by simp_all
  from New_fields [OF assms(1,2) a(1)] obtain be where be: "New start len = Inr be"
    and f1: "dstLen be = len div 8 + (if len mod 8 = 0 then 0 else 1)"
       "byteStart be = start div 8"
       "rshift be = word_of_int (7 - (start + len - 1) mod 8)"
       "lshift be = word_of_int ((start + len - 1) mod 8 + 1)"
       "mask be = word_of_int (if len mod 8 = 0 then 255 else 2 ^ nat (len mod 8) - 1)"
    by (elim exE conjE)
  from New_fields [OF assms(1) a(2) assms(3)] obtain be2 where be2: "New start (len + 8) = Inr be2"
    and f2: "dstLen be2 = (len + 8) div 8 + (if (len + 8) mod 8 = 0 then 0 else 1)"
       "byteStart be2 = start div 8"
       "rshift be2 = word_of_int (7 - (start + (len + 8) - 1) mod 8)"
       "lshift be2 = word_of_int ((start + (len + 8) - 1) mod 8 + 1)"
       "mask be2 = word_of_int (if (len + 8) mod 8 = 0 then 255 else 2 ^ nat ((len + 8) mod 8) - 1)"
    by (elim exE conjE)
  have "ByteLength be2 = ByteLength be + 1"
    unfolding ByteLength_def f1 f2 m8 by simp
  moreover have "byteStart be2 = byteStart be" unfolding f1 f2 ..
  moreover have "rshift be2 = rshift be" unfolding f1 f2 m8 ..
  moreover have "lshift be2 = lshift be" unfolding f1 f2 m8 ..
  moreover have "mask be2 = mask be" unfolding f1 f2 m8 ..
  ultimately show ?thesis using be be2 by blast
qed

theorem New_length_plus_8_witness:
  "(0::int) \<le> 3 \<and> (1::int) \<le> 10 \<and> (3::int) + (10 + 8) < 2 ^ 63 \<and>
   (\<exists>be be2. New 3 10 = Inr be \<and> New 3 (10 + 8) = Inr be2
           \<and> ByteLength be2 = ByteLength be + 1
           \<and> byteStart be2 = byteStart be
           \<and> rshift be2 = rshift be
           \<and> lshift be2 = lshift be
           \<and> mask be2 = mask be)"
  using New_length_plus_8 [of 3 10] by simp

text \<open>
  C6 as stated fails at \<open>start = 2^63 - 2\<close>, \<open>length = 1\<close>: \<open>start + length\<close> does not
  overflow and the extractor of \<open>(start, length)\<close> is built, but \<open>start + (length + 8)\<close>
  wraps around to a negative \<open>int\<close> and \<open>SetBounds\<close> panics on its overflow guard, so
  there is no extractor of \<open>(start, length + 8)\<close>.
\<close>

theorem New_length_plus_8_counterexample:
  "(0::int) \<le> 9223372036854775806 \<and> (1::int) \<le> 1
   \<and> int64 (9223372036854775806 + 1) = 9223372036854775806 + 1
   \<and> New 9223372036854775806 1 =
       Inr \<lparr>bitStart = 9223372036854775806, byteStart = 1152921504606846975,
            srcLen = 1, dstLen = 1, bias = srcBiasPrev, rshift = 1, lshift = 7, mask = 1\<rparr>
   \<and> New 9223372036854775806 (1 + 8) = Inl PanicOverflow"
  by (simp add: New_def SetBounds_def zeroBitExtractor_def Let_def int64_def ifAligned_def
      signed_divide_int_def signed_modulo_int_def)

section \<open>Undersized input of the ASCII decoder\<close>

lemma sdiv7_le0: "x < 7 \<Longrightarrow> (x::int) sdiv 7 \<le> 0"
  by (cases "0 \<le> x")
     (auto simp: signed_divide_int_def sgn_if
           intro!: mult_nonneg_nonneg pos_imp_zdiv_nonneg_iff [THEN iffD2])

text \<open>
  C3 (as amended).  For every \<open>offset\<close> in \<open>[0,7]\<close> and every \<open>data\<close> with
  \<open>len(data)*8 - offset < 7\<close>, \<open>DecodeASCIIAt\<close> returns the empty string, the null
  index 0, and the flag is set exactly when \<open>data\<close> is a single byte whose value is
  not zero.
\<close>

theorem DecodeASCIIAt_undersized:
  assumes "0 \<le> offset" "offset \<le> 7" "int (length dat) * 8 - offset < 7"
  shows "DecodeASCIIAt dat offset = Inr ([], 0, length dat = 1 \<and> dat ! 0 \<noteq> 0)"
  using assms sdiv7_le0 [of "int (length dat) * 8 - offset"]
  by (simp add: DecodeASCIIAt_def Let_def)

theorem DecodeASCIIAt_undersized_witness:
  "(0::int) \<le> 2 \<and> (2::int) \<le> 7 \<and> int (length [5::byte]) * 8 - 2 < 7
   \<and> DecodeASCIIAt [5] 2 = Inr ([], 0, length [5::byte] = 1 \<and> [5::byte] ! 0 \<noteq> 0)"
  using DecodeASCIIAt_undersized [of 2 "[5]"] by simp

text \<open>
  C3 as stated fails on the single byte \<open>0x01\<close> at offset 2: the flag is set although
  the byte is not zero; on the single zero byte the flag is not set.
\<close>

theorem DecodeASCIIAt_undersized_counterexample:
  "(0::int) \<le> 2 \<and> (2::int) \<le> 7 \<and> int (length [1::byte]) * 8 - 2 < 7
   \<and> DecodeASCIIAt [1] 2 = Inr ([], 0, True)
   \<and> DecodeASCIIAt [0] 2 = Inr ([], 0, False)"
  by (simp add: DecodeASCIIAt_def Let_def signed_divide_int_def)

section \<open>The filter check of ValidateRanges\<close>

lemma IsValid_iff: "IsValid fv \<longleftrightarrow> fv \<in> {0, 1, 2, 4, 6, 7}"
  unfolding IsValid_def Other_def UnitPack_def reserved1_def reserved2_def by auto

lemma goIndex_Inl: "goIndex xs i = Inl e \<Longrightarrow> e = PanicIndex"
  by (auto simp: goIndex_def split: if_splits)

lemma IsGS1AIEncodable_Inl: "IsGS1AIEncodable s = Inl e \<Longrightarrow> e = PanicIndex"
  by (induction s) (auto split: if_splits sum.splits dest: goIndex_Inl)

lemma ValidateRanges_after_filter:
  assumes "0 \<le> indicator s" "indicator s \<le> 9" "IsValid (filter' s)"
  shows "ValidateRanges s \<noteq> Inl ErrFilter"
proof
  assume a: "ValidateRanges s = Inl ErrFilter"
  with assms show False
    unfolding ValidateRanges_def
    by (auto split: if_splits sum.splits dest: goIndex_Inl IsGS1AIEncodable_Inl)
qed

text \<open>
  C4 (as amended).  \<open>ValidateRanges\<close> returns an error on every SGTIN whose filter is
  outside \<open>{0, 1, 2, 4, 6, 7}\<close>, and it returns the filter error exactly when the
  indicator is in \<open>[0,9]\<close> (the check before it) and the filter is outside that set:
  of the eight 3-bit values the two reserved ones, 3 and 5, are rejected, and so is
  every value outside \<open>[0,7]\<close>.
\<close>

theorem ValidateRanges_filter:
  "(filter' s \<notin> {0, 1, 2, 4, 6, 7} \<longrightarrow> (\<exists>e. ValidateRanges s = Inl e \<and> \<not> is_panic e))
   \<and> (ValidateRanges s = Inl ErrFilter
        \<longleftrightarrow> 0 \<le> indicator s \<and> indicator s \<le> 9 \<and> filter' s \<notin> {0, 1, 2, 4, 6, 7})"
proof -
  have v: "IsValid (filter' s) \<longleftrightarrow> filter' s \<in> {0, 1, 2, 4, 6, 7}" by (rule IsValid_iff)
  have 1: "\<exists>e. ValidateRanges s = Inl e \<and> \<not> is_panic e" if "\<not> IsValid (filter' s)"
    using that by (cases "indicator s < 0 \<or> indicator s > 9") (auto simp: ValidateRanges_def)
  have 2: "0 \<le> indicator s \<and> indicator s \<le> 9 \<and> \<not> IsValid (filter' s)"
    if a: "ValidateRanges s = Inl ErrFilter"
  proof -
    from a have i: "\<not> (indicator s < 0 \<or> indicator s > 9)"
      by (auto simp: ValidateRanges_def)
    with a ValidateRanges_after_filter [of s] show ?thesis by auto
  qed
  have 3: "ValidateRanges s = Inl ErrFilter"
    if "0 \<le> indicator s \<and> indicator s \<le> 9 \<and> \<not> IsValid (filter' s)"
    using that by (simp add: ValidateRanges_def)
  from 1 2 3 show ?thesis unfolding v by blast
qed

theorem ValidateRanges_filter_witness:
  "3 \<notin> {0, 1, 2, 4, 6, 7::int}
   \<and> (\<exists>e. ValidateRanges \<lparr>filter' = 3, partition = 0, companyPrefix = 1, indicator = 1,
              itemRef = 0, serial = ''1''\<rparr> = Inl e \<and> \<not> is_panic e)
   \<and> ValidateRanges \<lparr>filter' = 3, partition = 0, companyPrefix = 1, indicator = 1,
              itemRef = 0, serial = ''1''\<rparr> = Inl ErrFilter"
  using ValidateRanges_filter [of "\<lparr>filter' = 3, partition = 0, companyPrefix = 1,
    indicator = 1, itemRef = 0, serial = ''1''\<rparr>"] by simp

text \<open>
  C4 as stated fails at the filter value 8, which it lists as valid: an SGTIN that is
  valid with filter 2 is rejected, on account of the filter, with filter 8.
\<close>

theorem ValidateRanges_filter_counterexample:
  "8 \<in> {0, 1, 2, 4, 6, 7, 8, 9::int}
   \<and> ValidateRanges \<lparr>filter' = 8, partition = 0, companyPrefix = 1, indicator = 1,
        itemRef = 0, serial = ''1''\<rparr> = Inl ErrFilter
   \<and> ValidateRanges \<lparr>filter' = 2, partition = 0, companyPrefix = 1, indicator = 1,
        itemRef = 0, serial = ''1''\<rparr> = Inr ()"
  by code_simp

section \<open>GS1 escaping\<close>

lemma EscapeGS1_Nil: "EscapeGS1 [] = []"
  by (simp add: EscapeGS1_def)

lemma EscapeGS1_Cons: "EscapeGS1 (c # cs) = escapeByte c @ EscapeGS1 cs"
  by (simp add: EscapeGS1_def)

lemma Unescape_key:
  "map_of gs1Unescaper [a, b, c] = Some r \<Longrightarrow> UnescapeGS1 (a # b # c # rest) = r # UnescapeGS1 rest"
  by (subst UnescapeGS1.simps) simp

lemma Unescape_plain:
  "c \<noteq> CHR ''%'' \<Longrightarrow> UnescapeGS1 (c # rest) = c # UnescapeGS1 rest"
  by (subst UnescapeGS1.simps) (simp add: gs1Unescaper_def)

lemma Unescape_escapeByte:
  assumes "c \<noteq> nullASCII"
  shows "UnescapeGS1 (escapeByte c @ rest) = c # UnescapeGS1 rest"
proof (cases "map_of gs1Escaper c")
  case None
  then have "c \<noteq> CHR ''%''" by (auto simp: gs1Escaper_def split: if_splits)
  with None show ?thesis by (simp add: escapeByte_def Unescape_plain)
next
  case (Some r)
  with assms consider "c = CHR 0x22" | "c = CHR ''#''" | "c = CHR ''%''" | "c = CHR ''&''"
    | "c = CHR ''/''" | "c = CHR ''<''" | "c = CHR ''>''" | "c = CHR ''?''"
    by (auto simp: gs1Escaper_def nullASCII_def split: if_splits)
  then show ?thesis
    by cases (simp_all add: escapeByte_def gs1Escaper_def Unescape_key gs1Unescaper_def)
qed

lemma Unescape_Escape: "nullASCII \<notin> set s \<Longrightarrow> UnescapeGS1 (EscapeGS1 s) = s"
proof (induction s)
  case Nil
  show ?case by (simp add: EscapeGS1_Nil UnescapeGS1.simps)
next
  case (Cons c cs)
  then have "c \<noteq> nullASCII" "nullASCII \<notin> set cs" by auto
  with Cons.IH show ?case by (simp add: EscapeGS1_Cons Unescape_escapeByte)
qed

lemma escapeByte_null: "escapeByte nullASCII = []"
  by (simp add: escapeByte_def gs1Escaper_def nullASCII_def)

lemma Escape_filter: "EscapeGS1 (filter (\<lambda>c. c \<noteq> nullASCII) s) = EscapeGS1 s"
  by (induction s) (simp_all add: EscapeGS1_Nil EscapeGS1_Cons escapeByte_null)

text \<open>
  C8.  \<open>UnescapeGS1(EscapeGS1(s)) == s\<close> for every string \<open>s\<close> without null bytes
  (reserved characters unescaped or not, and any other characters);
  \<open>EscapeGS1(UnescapeGS1(s)) == s\<close> fails for some \<open>s\<close> (the single character
  \<open>%\<close>), and holds for every \<open>s\<close> that is the result of \<open>EscapeGS1\<close>.
\<close>

theorem UnescapeGS1_EscapeGS1:
  "(\<forall>s. nullASCII \<notin> set s \<longrightarrow> UnescapeGS1 (EscapeGS1 s) = s)
   \<and> (\<exists>s. EscapeGS1 (UnescapeGS1 s) \<noteq> s)
   \<and> (\<forall>t. EscapeGS1 (UnescapeGS1 (EscapeGS1 t)) = EscapeGS1 t)"
proof (intro conjI allI impI)
  fix s assume "nullASCII \<notin> set s"
  then show "UnescapeGS1 (EscapeGS1 s) = s" by (rule Unescape_Escape)
next
  have "EscapeGS1 (UnescapeGS1 ''%'') = ''%25''"
    by (simp add: UnescapeGS1.simps EscapeGS1_def escapeByte_def gs1Escaper_def)
  then show "\<exists>s. EscapeGS1 (UnescapeGS1 s) \<noteq> s" by (intro exI [of _ "''%''"]) simp
next
  fix t
  have "UnescapeGS1 (EscapeGS1 (filter (\<lambda>c. c \<noteq> nullASCII) t)) = filter (\<lambda>c. c \<noteq> nullASCII) t"
    by (rule Unescape_Escape) simp
  then show "EscapeGS1 (UnescapeGS1 (EscapeGS1 t)) = EscapeGS1 t"
    by (simp add: Escape_filter)
qed

theorem UnescapeGS1_EscapeGS1_witness:
  "nullASCII \<notin> set ''a%22/b#'' \<and> UnescapeGS1 (EscapeGS1 ''a%22/b#'') = ''a%22/b#''
   \<and> EscapeGS1 ''a%22/b#'' = ''a%2522%2Fb%23''"
proof -
  from UnescapeGS1_EscapeGS1
  have "nullASCII \<notin> set ''a%22/b#'' \<longrightarrow> UnescapeGS1 (EscapeGS1 ''a%22/b#'') = ''a%22/b#''"
    by blast
  moreover have "nullASCII \<notin> set ''a%22/b#''" by (simp add: nullASCII_def)
  moreover have "EscapeGS1 ''a%22/b#'' = ''a%2522%2Fb%23''"
    by (simp add: EscapeGS1_def escapeByte_def gs1Escaper_def)
  ultimately show ?thesis by blast
qed

section \<open>The GS1 check digit\<close>

lemma weight_eq: "push_bit 1 ((x::int) AND 1) OR 1 = (if odd x then 3 else 1)"
proof (cases "odd x")
  case True
  then have "x AND 1 = 1" by (simp add: and_one_eq mod_2_eq_odd)
  then show ?thesis using True by simp
next
  case False
  then have "x AND 1 = 0" by (simp add: and_one_eq mod_2_eq_odd)
  then show ?thesis using False by simp
qed

lemma checkSumLoop_spec:
  "checkSumLoop n d1 i acc = acc + specWeightedSum n (d1 + i)"
proof (induction n d1 i acc rule: checkSumLoop.induct)
  case (1 n d1 i acc)
  show ?case
  proof (cases "n > 0")
    case True
    then have d: "n sdiv 10 = n div 10" "n smod 10 = n mod 10"
      by (simp_all add: sdiv_nonneg smod_nonneg)
    have par: "odd (d1 - i) = odd (d1 + i)" by simp
    have "checkSumLoop n d1 i acc =
          checkSumLoop (n sdiv 10) d1 (i + 1)
            (acc + (n smod 10) * (push_bit 1 ((d1 - i) AND 1) OR 1))"
      using True by (subst checkSumLoop.simps) (simp only: if_True)
    also have "\<dots> =
          checkSumLoop (n div 10) d1 (i + 1) (acc + (n mod 10) * (if odd (d1 + i) then 3 else 1))"
      unfolding d weight_eq par ..
    also have "\<dots> = acc + (n mod 10) * (if odd (d1 + i) then 3 else 1)
                     + specWeightedSum (n div 10) (d1 + (i + 1))"
      using "1.IH" [OF True] unfolding d weight_eq par by simp
    also have "\<dots> = acc + specWeightedSum n (d1 + i)"
      using True by (subst (2) specWeightedSum.simps) (simp add: add.assoc)
    finally show ?thesis .
  next
    case False
    then show ?thesis
      by (subst checkSumLoop.simps, subst specWeightedSum.simps) simp
  qed
qed

lemma checkSum_spec: "checkSum n d1 = specWeightedSum n d1"
  by (simp add: checkSum_def checkSumLoop_spec)

lemma specWeightedSum_nonneg: "0 \<le> specWeightedSum n p"
proof (induction n p rule: specWeightedSum.induct)
  case (1 n p)
  show ?case
  proof (cases "n \<le> 0")
    case True
    then show ?thesis by (subst specWeightedSum.simps) simp
  next
    case False
    with "1.IH" have "0 \<le> specWeightedSum (n div 10) (p + 1)" by simp
    moreover have "0 \<le> (n mod 10) * (if odd p then 3 else 1)" by simp
    ultimately show ?thesis using False by (subst specWeightedSum.simps) simp
  qed
qed

text \<open>
  C9.  For every SGTIN whose \<open>itemRef\<close>, \<open>companyPrefix\<close> and \<open>indicator\<close> are not
  negative, \<open>checkDigit\<close> is in \<open>[0,9]\<close> and equals
  \<open>(10 - (totalSum mod 10)) mod 10\<close>, where \<open>totalSum\<close> is the sum of the weighted
  digit sums of the three components anchored at positions 1, \<open>13 - partition\<close> and 13.
\<close>

theorem checkDigit_range:
  assumes "0 \<le> itemRef s" "0 \<le> companyPrefix s" "0 \<le> indicator s"
  shows "0 \<le> checkDigit s \<and> checkDigit s \<le> 9
     \<and> checkDigit s =
         (10 - (specWeightedSum (itemRef s) 1
                + specWeightedSum (companyPrefix s) (13 - partition s)
                + specWeightedSum (indicator s) 13) mod 10) mod 10"
proof -
  let ?t = "specWeightedSum (itemRef s) 1
            + specWeightedSum (companyPrefix s) (13 - partition s)
            + specWeightedSum (indicator s) 13"
  have t: "0 \<le> ?t" by (simp add: specWeightedSum_nonneg)
  have m: "?t smod 10 = ?t mod 10" using t by (rule smod_nonneg) simp
  have "0 \<le> 10 - ?t mod 10" by (simp add: algebra_simps) 
  then have m2: "(10 - ?t mod 10) smod 10 = (10 - ?t mod 10) mod 10"
    by (rule smod_nonneg) simp
  have c: "checkDigit s = (10 - ?t mod 10) mod 10"
    unfolding checkDigit_def Let_def checkSum_spec m m2 ..
  show ?thesis unfolding c by simp
qed

theorem checkDigit_range_witness:
  "(0::int) \<le> 734 \<and> (0::int) \<le> 614141 \<and> (0::int) \<le> 0
   \<and> checkDigit \<lparr>filter' = 1, partition = 5, companyPrefix = 614141, indicator = 0,
          itemRef = 734, serial = ''314159''\<rparr> = 9
   \<and> specWeightedSum 734 1 + specWeightedSum 614141 (13 - 5) + specWeightedSum 0 13 = 81"
  using checkDigit_range [of "\<lparr>filter' = 1, partition = 5, companyPrefix = 614141,
          indicator = 0, itemRef = 734, serial = ''314159''\<rparr>"]
  by (simp add: specWeightedSum.simps)

section \<open>Decoding scenarios\<close>

text \<open>
  C5.  Decoding the hex-encoded EPC \<open>300000000000044000000001\<close> succeeds; the GTIN of
  the resulting SGTIN is \<open>10000000000014\<close> and its URI is
  \<open>urn:epc:id:sgtin:000000000001.1.1\<close>.
\<close>

theorem DecodeSGTINString_scenario:
  "DecodeSGTINString ''300000000000044000000001'' =
     Inr \<lparr>filter' = 0, partition = 0, companyPrefix = 1, indicator = 1, itemRef = 0,
          serial = ''1''\<rparr>
   \<and> GTIN \<lparr>filter' = 0, partition = 0, companyPrefix = 1, indicator = 1, itemRef = 0,
          serial = ''1''\<rparr> = ''10000000000014''
   \<and> URI \<lparr>filter' = 0, partition = 0, companyPrefix = 1, indicator = 1, itemRef = 0,
          serial = ''1''\<rparr> = ''urn:epc:id:sgtin:000000000001.1.1''"
  by code_simp

text \<open>
  C1 does not hold of \<open>DecodeSGTIN\<close>.  On the SGTIN-96 input
  \<open>30 04 00 00 00 00 03 C0 00 00 00 01\<close> (partition 1) the extractor \<open>iirExt[1]\<close>
  yields \<open>iir = 15\<close>; the decoded indicator is \<open>15 / 10 = 1\<close>, but the decoded item
  reference is \<open>15 - 1 * 10 * 10 = -85\<close>, whereas \<open>15 mod 10 = 5\<close>.
\<close>

theorem DecodeSGTIN_itemRef_divergence:
  "bindE (bindE (goIndex iirExt 1) id)
      (\<lambda>x. ExtractUInt64 x [0x30, 0x04, 0, 0, 0, 0, 0x03, 0xC0, 0, 0, 0, 1]) = Inr 15
   \<and> DecodeSGTIN [0x30, 0x04, 0, 0, 0, 0, 0x03, 0xC0, 0, 0, 0, 1] =
     Inr \<lparr>filter' = 0, partition = 1, companyPrefix = 0, indicator = 1, itemRef = - 85,
          serial = ''1''\<rparr>
   \<and> (15::int) mod 10 ^ 1 = 5"
  by code_simp

end
